theory Spec2Isabelle
  imports Complex_Main
begin

section \<open>The selection engine of reddit-wallpaper (src/index.js)\<close>

text \<open>
  A shallow embedding of the functions of \<^verbatim>\<open>src/index.js\<close> that turn listing
  items into candidate links, filter them, rank them and pick one:
  \<^verbatim>\<open>assignConfig\<close>, \<^verbatim>\<open>selectWallpaperLink\<close>, \<^verbatim>\<open>selectLink\<close>, \<^verbatim>\<open>heat\<close>,
  \<^verbatim>\<open>controversy\<close>, \<^verbatim>\<open>urlFilePath\<close>, \<^verbatim>\<open>parseType\<close>, \<^verbatim>\<open>matchFile\<close>,
  \<^verbatim>\<open>parseResolution\<close> and \<^verbatim>\<open>fileExists\<close>.
\<close>

subsection \<open>JavaScript numbers\<close>

text \<open>
  A JavaScript number is modelled as a real number, one of the two infinities, or NaN, and
  \<open>-0\<close> is identified with \<open>0\<close> (the two compare equal under \<^verbatim>\<open>>\<close>). Every
  operation below propagates NaN and the infinities the way the language does, which is
  what the comparators of the fold observe. The arithmetic operations, \<^verbatim>\<open>Math.log10\<close>
  and \<^verbatim>\<open>Math.pow\<close> are computed on the reals and not rounded to a double after each
  step, so a value of \<open>heat\<close> or \<open>controversy\<close> can differ from the program's in the
  last place, and a \<open>heat\<close> whose sum falls on a rounding boundary by one. The values the
  claims below compute (integers, \<open>10 / 10\<close>, \<open>20\<close> to the power \<open>1\<close>, the
  logarithm of \<open>10\<close>, sums that are far from a half) are the same in doubles. Numbers
  read from digits by \<^verbatim>\<open>parseInt\<close> are rounded to the nearest double.
\<close>

datatype jsnum = NaN | NInf | Fin real | PInf

text \<open>An integer as a number, and \<^verbatim>\<open>ToNumber\<close> of a property that holds an integer or is
  absent (\<^verbatim>\<open>undefined\<close> becomes NaN).\<close>

definition int_num :: "int \<Rightarrow> jsnum" where
  "int_num i = Fin (of_int i)"

fun num :: "int option \<Rightarrow> jsnum" where
  "num None = NaN"
| "num (Some i) = int_num i"

text \<open>\<^verbatim>\<open>a > b\<close> and \<^verbatim>\<open>a < b\<close>: false as soon as one side is NaN.\<close>

fun js_lt :: "jsnum \<Rightarrow> jsnum \<Rightarrow> bool" where
  "js_lt NaN _ = False"
| "js_lt _ NaN = False"
| "js_lt NInf NInf = False"
| "js_lt NInf _ = True"
| "js_lt (Fin a) (Fin b) = (a < b)"
| "js_lt (Fin a) PInf = True"
| "js_lt (Fin a) NInf = False"
| "js_lt PInf _ = False"

definition js_gt :: "jsnum \<Rightarrow> jsnum \<Rightarrow> bool" where
  "js_gt a b = js_lt b a"

text \<open>\<^verbatim>\<open>a >= b\<close> is \<open>\<not> (a < b)\<close> unless one side is NaN, where it is false.\<close>

definition js_ge :: "jsnum \<Rightarrow> jsnum \<Rightarrow> bool" where
  "js_ge a b = (a \<noteq> NaN \<and> b \<noteq> NaN \<and> \<not> js_lt a b)"

text \<open>\<^verbatim>\<open>!x\<close> on a property that holds an integer or is absent: true for \<open>0\<close> and for
  \<^verbatim>\<open>undefined\<close>.\<close>

fun js_not :: "int option \<Rightarrow> bool" where
  "js_not None = True"
| "js_not (Some i) = (i = 0)"

fun js_neg :: "jsnum \<Rightarrow> jsnum" where
  "js_neg NaN = NaN"
| "js_neg NInf = PInf"
| "js_neg (Fin a) = Fin (- a)"
| "js_neg PInf = NInf"

fun js_add :: "jsnum \<Rightarrow> jsnum \<Rightarrow> jsnum" where
  "js_add NaN _ = NaN"
| "js_add _ NaN = NaN"
| "js_add (Fin a) (Fin b) = Fin (a + b)"
| "js_add PInf NInf = NaN"
| "js_add NInf PInf = NaN"
| "js_add PInf _ = PInf"
| "js_add NInf _ = NInf"
| "js_add (Fin a) b = b"

definition js_sub :: "jsnum \<Rightarrow> jsnum \<Rightarrow> jsnum" where
  "js_sub a b = js_add a (js_neg b)"

text \<open>The sign of a number that is not NaN, as \<open>-1\<close>, \<open>0\<close> or \<open>1\<close>.\<close>

fun sgn_of :: "jsnum \<Rightarrow> real" where
  "sgn_of NaN = 0"
| "sgn_of NInf = - 1"
| "sgn_of (Fin a) = sgn a"
| "sgn_of PInf = 1"

definition signed_inf :: "real \<Rightarrow> jsnum" where
  "signed_inf s = (if 0 < s then PInf else NInf)"

fun js_mul :: "jsnum \<Rightarrow> jsnum \<Rightarrow> jsnum" where
  "js_mul NaN _ = NaN"
| "js_mul _ NaN = NaN"
| "js_mul (Fin a) (Fin b) = Fin (a * b)"
| "js_mul a b =
     (if sgn_of a = 0 \<or> sgn_of b = 0 then NaN else signed_inf (sgn_of a * sgn_of b))"

fun js_div :: "jsnum \<Rightarrow> jsnum \<Rightarrow> jsnum" where
  "js_div NaN _ = NaN"
| "js_div _ NaN = NaN"
| "js_div (Fin a) (Fin b) =
     (if b \<noteq> 0 then Fin (a / b)
      else if a = 0 then NaN
      else signed_inf a)"
| "js_div (Fin a) _ = Fin 0"
| "js_div a (Fin b) = signed_inf (sgn_of a * (if b < 0 then - 1 else 1))"
| "js_div _ _ = NaN"

text \<open>\<^verbatim>\<open>Math.max(a, b)\<close>: NaN when either argument is.\<close>

fun js_max :: "jsnum \<Rightarrow> jsnum \<Rightarrow> jsnum" where
  "js_max NaN _ = NaN"
| "js_max _ NaN = NaN"
| "js_max a b = (if js_lt a b then b else a)"

text \<open>\<^verbatim>\<open>Math.log10\<close>: NaN below zero, \<open>-Infinity\<close> at zero.\<close>

fun js_log10 :: "jsnum \<Rightarrow> jsnum" where
  "js_log10 NaN = NaN"
| "js_log10 NInf = NaN"
| "js_log10 (Fin a) = (if a < 0 then NaN else if a = 0 then NInf else Fin (log 10 a))"
| "js_log10 PInf = PInf"

text \<open>
  \<^verbatim>\<open>Math.round(x)\<close> takes one argument and returns the integer nearest to \<open>x\<close>, a tie
  going up: \<open>\<lfloor>x + 1/2\<rfloor>\<close>. Further arguments are ignored by the language.
\<close>

fun js_round :: "jsnum \<Rightarrow> jsnum" where
  "js_round (Fin a) = Fin (of_int \<lfloor>a + 1 / 2\<rfloor>)"
| "js_round a = a"

text \<open>
  \<^verbatim>\<open>Math.pow(base, exponent)\<close>. A NaN exponent gives NaN, exponent \<open>0\<close> gives \<open>1\<close>
  for every base, a negative base with a fractional exponent gives NaN.
\<close>

definition pow_fin :: "real \<Rightarrow> real \<Rightarrow> jsnum" where
  "pow_fin b e =
     (if 0 < b then Fin (b powr e)
      else if b = 0 then (if 0 < e then Fin 0 else PInf)
      else if e \<in> \<int> then Fin (power_int b \<lfloor>e\<rfloor>)
      else NaN)"

definition pow_inf :: "bool \<Rightarrow> real \<Rightarrow> jsnum" where
  "pow_inf negative e =
     (if e < 0 then Fin 0
      else if negative \<and> e \<in> \<int> \<and> odd \<lfloor>e\<rfloor> then NInf
      else PInf)"

fun js_pow :: "jsnum \<Rightarrow> jsnum \<Rightarrow> jsnum" where
  "js_pow b NaN = NaN"
| "js_pow b (Fin e) =
     (if e = 0 then Fin 1
      else (case b of
              NaN \<Rightarrow> NaN
            | Fin x \<Rightarrow> pow_fin x e
            | PInf \<Rightarrow> pow_inf False e
            | NInf \<Rightarrow> pow_inf True e))"
| "js_pow NaN e = NaN"
| "js_pow (Fin b) PInf = (if 1 < \<bar>b\<bar> then PInf else if \<bar>b\<bar> = 1 then NaN else Fin 0)"
| "js_pow (Fin b) NInf = (if 1 < \<bar>b\<bar> then Fin 0 else if \<bar>b\<bar> = 1 then NaN else PInf)"
| "js_pow b PInf = PInf"
| "js_pow b NInf = Fin 0"

subsection \<open>JavaScript strings\<close>

text \<open>
  A string is its sequence of UTF-16 code units, each a natural number. \<open>str\<close> turns an
  ASCII literal into such a sequence.
\<close>

type_synonym jsstring = "nat list"

definition str :: "string \<Rightarrow> jsstring" where
  "str s = map of_char s"

text \<open>The character classes \<^verbatim>\<open>\d\<close>, \<^verbatim>\<open>\w\<close> and \<^verbatim>\<open>\s\<close> of a regular expression without
  the \<^verbatim>\<open>u\<close> flag. With the \<^verbatim>\<open>i\<close> flag they match the same code units. White space is
  the set of ECMAScript 2016 and later (earlier engines also counted U+180E).\<close>

definition is_digit :: "nat \<Rightarrow> bool" where
  "is_digit c = (48 \<le> c \<and> c \<le> 57)"

definition is_upper :: "nat \<Rightarrow> bool" where
  "is_upper c = (65 \<le> c \<and> c \<le> 90)"

definition is_lower :: "nat \<Rightarrow> bool" where
  "is_lower c = (97 \<le> c \<and> c \<le> 122)"

definition is_word :: "nat \<Rightarrow> bool" where
  "is_word c = (is_upper c \<or> is_lower c \<or> is_digit c \<or> c = 95)"

definition is_space :: "nat \<Rightarrow> bool" where
  "is_space c =
     (c \<in> {9, 10, 11, 12, 13, 32, 160, 5760, 8232, 8233, 8239, 8287, 12288, 65279}
      \<or> (8192 \<le> c \<and> c \<le> 8202))"

text \<open>
  \<^verbatim>\<open>String.prototype.toLowerCase\<close>. On a string of ASCII code units it maps the
  letters \<open>A\<close> to \<open>Z\<close> to \<open>a\<close> to \<open>z\<close> and keeps the rest. On any other string it is
  the engine's Unicode lower-casing, which is a parameter (\<open>unicode_lower\<close>) of every
  function that lower-cases.
\<close>

definition lower_unit :: "nat \<Rightarrow> nat" where
  "lower_unit c = (if is_upper c then c + 32 else c)"

definition toLowerCase :: "(jsstring \<Rightarrow> jsstring) \<Rightarrow> jsstring \<Rightarrow> jsstring" where
  "toLowerCase unicode_lower s =
     (if list_all (\<lambda>c. c < 128) s then map lower_unit s else unicode_lower s)"

text \<open>\<^verbatim>\<open>xs.indexOf(x)\<close>: the first index holding \<open>x\<close>, or \<open>-1\<close>.\<close>

fun indexOf :: "'a list \<Rightarrow> 'a \<Rightarrow> int" where
  "indexOf [] x = - 1"
| "indexOf (y # ys) x =
     (if y = x then 0 else (let i = indexOf ys x in if i < 0 then - 1 else i + 1))"

subsection \<open>The two regular expressions\<close>

text \<open>
  \<^verbatim>\<open>s.match(re)\<close> without the \<^verbatim>\<open>g\<close> flag tries the expression at each start index
  from the left and returns the first success as the array of the whole match and its
  groups, or \<^verbatim>\<open>null\<close>.
\<close>

fun search :: "(jsstring \<Rightarrow> 'a option) \<Rightarrow> jsstring \<Rightarrow> 'a option" where
  "search try [] = try []"
| "search try (c # cs) =
     (case try (c # cs) of Some m \<Rightarrow> Some m | None \<Rightarrow> search try cs)"

text \<open>
  \<^verbatim>\<open>/([\w,\s-]+)\.([\w]+)(\?|$|#)/i\<close> at one start index. Each greedy group is
  followed by something outside its own class (the dot is not in \<^verbatim>\<open>[\w,\s-]\<close>; the
  question mark, the hash and the end of input are not in \<^verbatim>\<open>\w\<close>), so backtracking to
  a shorter group can never succeed and the match, when there is one, takes the longest
  run of each class.
\<close>

definition is_name :: "nat \<Rightarrow> bool" where
  "is_name c = (is_word c \<or> c = 44 \<or> is_space c \<or> c = 45)"

definition file_at :: "jsstring \<Rightarrow> jsstring list option" where
  "file_at s =
     (let name = takeWhile is_name s;
          r1 = dropWhile is_name s;
          ext = takeWhile is_word (tl r1);
          r3 = dropWhile is_word (tl r1)
      in if name = [] then None
         else if r1 = [] \<or> hd r1 \<noteq> 46 then None
         else if ext = [] then None
         else if r3 = [] then Some [name @ [46] @ ext, name, ext, []]
         else if hd r3 = 63 \<or> hd r3 = 35
           then Some [name @ [46] @ ext @ [hd r3], name, ext, [hd r3]]
         else None)"

text \<open>
  \<^verbatim>\<open>
  function matchFile(url) {
      let match = url.match(/([\w,\s-]+)\.([\w]+)(\?|$|#)/i);
      if (match && match.length > 1) { return match; }
  }
  \<close>
  \<open>None\<close> is \<^verbatim>\<open>undefined\<close>.
\<close>

definition matchFile :: "jsstring \<Rightarrow> jsstring list option" where
  "matchFile url =
     (case search file_at url of
        None \<Rightarrow> None
      | Some m \<Rightarrow> if length m > 1 then Some m else None)"

text \<open>
  \<^verbatim>\<open>
  function parseType(url) {
      let match = matchFile(url);
      if (match && match.length > 2) { return match[2].toLowerCase(); }
      return '';
  }
  \<close>
\<close>

definition parseType :: "(jsstring \<Rightarrow> jsstring) \<Rightarrow> jsstring \<Rightarrow> jsstring" where
  "parseType unicode_lower url =
     (case matchFile url of
        None \<Rightarrow> []
      | Some m \<Rightarrow> if length m > 2 then toLowerCase unicode_lower (m ! 2) else [])"

text \<open>
  Errors the program can raise: the \<^verbatim>\<open>TypeError\<close> of reading a property of
  \<^verbatim>\<open>undefined\<close>, the \<^verbatim>\<open>Error('Unknown sort ' + sort)\<close> of \<^verbatim>\<open>selectLink\<close>, and a failure
  of the file system. A computation that may throw, or a promise, is a value of
  \<open>error + 'a\<close>: \<open>Inl\<close> is the exception or the rejection.
\<close>

datatype error = TypeError | UnknownSort jsstring | FsError nat

text \<open>
  \<^verbatim>\<open>
  function urlFilePath(url, directory) {
     let match = matchFile(url);
     if (match.length > 2) {
        return path.join(directory, [match[1], match[2]].join('.'));
     }
  }
  \<close>
  \<^verbatim>\<open>match.length\<close> is read with no test that \<^verbatim>\<open>match\<close> is defined, so an \<^verbatim>\<open>undefined\<close>
  match throws. \<^verbatim>\<open>path.join\<close> belongs to the platform and is a parameter. The result
  \<open>Inr None\<close> is the function falling through and returning \<^verbatim>\<open>undefined\<close>.
\<close>

definition urlFilePath ::
  "(jsstring \<Rightarrow> jsstring \<Rightarrow> jsstring) \<Rightarrow> jsstring \<Rightarrow> jsstring \<Rightarrow> error + jsstring option" where
  "urlFilePath path_join url directory =
     (case matchFile url of
        None \<Rightarrow> Inl TypeError
      | Some m \<Rightarrow>
          if length m > 2 then Inr (Some (path_join directory (m ! 1 @ [46] @ m ! 2)))
          else Inr None)"

text \<open>
  \<^verbatim>\<open>/\[\s*(\d+)\s*[\u00D7x\*]\s*(\d+)\s*\]/i\<close> at one start index. Neighbouring classes
  are disjoint (white space, digits, the separators, the closing bracket), so again each
  greedy run is the longest one. The separators are U+00D7 (the multiplication sign), \<open>x\<close>, \<open>*\<close>, and
  \<open>X\<close> by the \<^verbatim>\<open>i\<close> flag.
\<close>

definition is_sep :: "nat \<Rightarrow> bool" where
  "is_sep c = (c = 215 \<or> c = 120 \<or> c = 88 \<or> c = 42)"

definition resolution_at :: "jsstring \<Rightarrow> jsstring list option" where
  "resolution_at s =
     (let r1 = dropWhile is_space (tl s);
          w = takeWhile is_digit r1;
          r2 = dropWhile is_space (dropWhile is_digit r1);
          r4 = dropWhile is_space (tl r2);
          h = takeWhile is_digit r4;
          r5 = dropWhile is_space (dropWhile is_digit r4)
      in if s = [] \<or> hd s \<noteq> 91 then None
         else if w = [] then None
         else if r2 = [] \<or> \<not> is_sep (hd r2) then None
         else if h = [] then None
         else if r5 = [] \<or> hd r5 \<noteq> 93 then None
         else Some [take (length s - length (tl r5)) s, w, h])"

text \<open>
  The double nearest to a natural number (ties to the even significand), or
  \<open>Infinity\<close> when that is out of range: numbers below \<open>2^53\<close> are kept, a larger one
  keeps its 53 leading bits, rounded on the bits dropped. \<open>bits n\<close> is the number of
  binary digits of \<open>n\<close>.
\<close>

fun bits :: "nat \<Rightarrow> nat" where
  "bits n = (if n = 0 then 0 else Suc (bits (n div 2)))"

declare bits.simps [simp del]

definition nearest :: "nat \<Rightarrow> nat" where
  "nearest n =
     (let k = bits n - 53;
          q = n div 2 ^ k;
          r = n mod 2 ^ k;
          half = 2 ^ (k - 1)
      in (if half < r \<or> (r = half \<and> odd q) then q + 1 else q) * 2 ^ k)"

definition to_double :: "nat \<Rightarrow> jsnum" where
  "to_double n =
     (if n < 2 ^ 53 then Fin (real n)
      else if nearest n < 2 ^ 1024 then Fin (real (nearest n))
      else PInf)"

text \<open>
  \<^verbatim>\<open>parseInt(string)\<close> with no radix: leading white space is dropped, then a sign, then a
  prefix \<open>0x\<close> or \<open>0X\<close> that selects base sixteen; the longest run of digits of the base
  is read, NaN if there is none, and the result is the double nearest to the value, with
  the sign. (The language lets an engine replace the decimal digits after the twentieth
  by zeros; the value is taken exactly here. A negative zero is \<open>0\<close>.)
\<close>

definition is_hex :: "nat \<Rightarrow> bool" where
  "is_hex c = (is_digit c \<or> (97 \<le> c \<and> c \<le> 102) \<or> (65 \<le> c \<and> c \<le> 70))"

definition digit_value :: "nat \<Rightarrow> nat" where
  "digit_value c = (if is_digit c then c - 48 else if 97 \<le> c then c - 87 else c - 55)"

definition radix_value :: "nat \<Rightarrow> jsstring \<Rightarrow> nat" where
  "radix_value radix ds = foldl (\<lambda>a c. radix * a + digit_value c) 0 ds"

definition parse_digits :: "nat \<Rightarrow> (nat \<Rightarrow> bool) \<Rightarrow> jsstring \<Rightarrow> jsnum" where
  "parse_digits radix is_dig s =
     (let z = takeWhile is_dig s
      in if z = [] then NaN else to_double (radix_value radix z))"

definition parse_unsigned :: "jsstring \<Rightarrow> jsnum" where
  "parse_unsigned s =
     (if 2 \<le> length s \<and> hd s = 48 \<and> (hd (tl s) = 120 \<or> hd (tl s) = 88)
      then parse_digits 16 is_hex (tl (tl s))
      else parse_digits 10 is_digit s)"

definition parseInt :: "jsstring \<Rightarrow> jsnum" where
  "parseInt string =
     (let s = dropWhile is_space string
      in if s = [] then NaN
         else if hd s = 45 then js_neg (parse_unsigned (tl s))
         else if hd s = 43 then parse_unsigned (tl s)
         else parse_unsigned s)"

text \<open>A resolution, of a title or of the configuration: two numbers.\<close>

record resolution =
  width :: jsnum
  height :: jsnum

text \<open>
  \<^verbatim>\<open>
  function parseResolution(title) {
      let match = title.match(/\[\s*(\d+)\s*[\u00D7x\*]\s*(\d+)\s*\]/i);
      if (match && match.length > 2) {
          return { width: parseInt(match[1]), height: parseInt(match[2]) };
      }
  }
  \<close>
\<close>

definition parseResolution :: "jsstring \<Rightarrow> resolution option" where
  "parseResolution title =
     (case search resolution_at title of
        None \<Rightarrow> None
      | Some m \<Rightarrow>
          if length m > 2
          then Some \<lparr>width = parseInt (m ! 1), height = parseInt (m ! 2)\<rparr>
          else None)"

subsection \<open>Links and the configuration\<close>

text \<open>
  The four properties the comparators read. \<^verbatim>\<open>score\<close> may be absent; the vote counts and
  the timestamp are integers.
  \<^verbatim>\<open>
  const defaultLink = { score: 0, createdUtc: 0, ups: 0, downs: 0 };
  \<close>
\<close>

record ranking =
  score :: "int option"
  createdUtc :: int
  ups :: int
  downs :: int

definition defaultLink :: ranking where
  "defaultLink = \<lparr>score = Some 0, createdUtc = 0, ups = 0, downs = 0\<rparr>"

text \<open>The object built for each listing item (lines 89 to 102): the ranking properties
  and the rest.\<close>

record link = ranking +
  url :: jsstring
  subreddit :: jsstring
  permalink :: jsstring
  title :: jsstring
  author :: jsstring
  domain :: jsstring
  ltype :: jsstring
  resolution :: "resolution option"

text \<open>What the fold ranges over: the seed \<^verbatim>\<open>defaultLink\<close>, which has the ranking
  properties only, or a link.\<close>

datatype candidate = DefaultLink | Link link

text \<open>The payload of a listing item (\<^verbatim>\<open>link.data\<close>), a listing item, and the response
  for one subreddit; \<open>l_children = None\<close> stands for a missing \<^verbatim>\<open>data\<close> or
  \<^verbatim>\<open>data.children\<close>.\<close>

record raw =
  r_url :: jsstring
  r_subreddit :: jsstring
  r_permalink :: jsstring
  r_title :: jsstring
  r_author :: jsstring
  r_score :: "int option"
  r_ups :: int
  r_downs :: int
  r_created_utc :: int
  r_domain :: jsstring

record child =
  c_kind :: jsstring
  c_data :: "raw option"

record listing =
  l_kind :: jsstring
  l_children :: "child list option"

text \<open>
  The configuration object. \<open>None\<close> in \<open>opt_domains\<close>, \<open>opt_types\<close>,
  \<open>opt_resolution\<close> and \<open>opt_files\<close> is a property that is absent or \<^verbatim>\<open>null\<close>.
\<close>

record config =
  opt_subreddits :: "jsstring list"
  opt_sort :: jsstring
  opt_from :: jsstring
  opt_score :: int
  opt_domains :: "jsstring list option"
  opt_types :: "jsstring list option"
  opt_shuffle :: bool
  opt_directory :: jsstring
  opt_resolution :: "resolution option"
  opt_files :: "jsstring list option"

text \<open>The constant \<^verbatim>\<open>defaults\<close> (lines 14 to 24); its directory is
  \<^verbatim>\<open>path.join(home, '.reddit-wallpaper')\<close>, a parameter here.\<close>

definition defaults :: "jsstring \<Rightarrow> config" where
  "defaults dir =
     \<lparr>opt_subreddits = [str ''wallpaper'', str ''wallpapers'', str ''castles''],
      opt_sort = str ''top'',
      opt_from = str ''month'',
      opt_score = 100,
      opt_domains = Some [str ''i.imgur.com'', str ''imgur.com''],
      opt_types = Some [str ''png'', str ''jpg'', str ''jpeg''],
      opt_shuffle = True,
      opt_directory = dir,
      opt_resolution = Some \<lparr>width = Fin 1920, height = Fin 1080\<rparr>,
      opt_files = None\<rparr>"

text \<open>The object a caller passes: each property present (\<open>Some\<close>) or not.\<close>

record overrides =
  ov_subreddits :: "jsstring list option"
  ov_sort :: "jsstring option"
  ov_from :: "jsstring option"
  ov_score :: "int option"
  ov_domains :: "jsstring list option option"
  ov_types :: "jsstring list option option"
  ov_shuffle :: "bool option"
  ov_directory :: "jsstring option"
  ov_resolution :: "resolution option option"
  ov_files :: "jsstring list option option"

definition assign :: "'a \<Rightarrow> 'a option \<Rightarrow> 'a" where
  "assign old new = (case new of None \<Rightarrow> old | Some v \<Rightarrow> v)"

text \<open>
  \<^verbatim>\<open>
  function assignConfig(options) {
     options = Object.assign(defaults, options);
     if (options.domains) { options.domains = options.domains.map(domain => domain.toLowerCase()); }
     if (options.files) { options.files = options.files.map(file => file.toLowerCase()); }
     if (options.directory.indexOf('~') >= 0) { options.directory = expandTilde(options.directory); }
     return options;
  }
  \<close>
  \<^verbatim>\<open>Object.assign\<close> writes into \<^verbatim>\<open>defaults\<close> itself, so the function takes the current
  value of that object and its result is also the new value. \<^verbatim>\<open>expandTilde\<close> is a
  library function and a parameter, like \<open>unicode_lower\<close>.
\<close>

definition assignConfig ::
  "(jsstring \<Rightarrow> jsstring) \<Rightarrow> (jsstring \<Rightarrow> jsstring) \<Rightarrow> config \<Rightarrow> overrides \<Rightarrow> config" where
  "assignConfig expandTilde unicode_lower dflt options =
     (let merged =
        \<lparr>opt_subreddits = assign (opt_subreddits dflt) (ov_subreddits options),
         opt_sort = assign (opt_sort dflt) (ov_sort options),
         opt_from = assign (opt_from dflt) (ov_from options),
         opt_score = assign (opt_score dflt) (ov_score options),
         opt_domains = assign (opt_domains dflt) (ov_domains options),
         opt_types = assign (opt_types dflt) (ov_types options),
         opt_shuffle = assign (opt_shuffle dflt) (ov_shuffle options),
         opt_directory = assign (opt_directory dflt) (ov_directory options),
         opt_resolution = assign (opt_resolution dflt) (ov_resolution options),
         opt_files = assign (opt_files dflt) (ov_files options)\<rparr>
      in merged
        \<lparr>opt_domains := map_option (map (toLowerCase unicode_lower)) (opt_domains merged),
         opt_files := map_option (map (toLowerCase unicode_lower)) (opt_files merged),
         opt_directory :=
           (if indexOf (opt_directory merged) 126 \<ge> 0
            then expandTilde (opt_directory merged)
            else opt_directory merged)\<rparr>)"

subsection \<open>Normalising and filtering\<close>

definition toLink :: "(jsstring \<Rightarrow> jsstring) \<Rightarrow> raw \<Rightarrow> link" where
  "toLink unicode_lower d =
     \<lparr>score = r_score d,
      createdUtc = r_created_utc d,
      ups = r_ups d,
      downs = r_downs d,
      url = r_url d,
      subreddit = r_subreddit d,
      permalink = r_permalink d,
      title = r_title d,
      author = r_author d,
      domain = toLowerCase unicode_lower (r_domain d),
      ltype = toLowerCase unicode_lower (parseType unicode_lower (r_url d)),
      resolution = parseResolution (r_title d)\<rparr>"

text \<open>\<^verbatim>\<open>link.kind.toLowerCase() === 't3' && link.data\<close>, then the object literal.\<close>

definition child_links :: "(jsstring \<Rightarrow> jsstring) \<Rightarrow> child \<Rightarrow> link list" where
  "child_links unicode_lower c =
     (if toLowerCase unicode_lower (c_kind c) = str ''t3''
      then (case c_data c of None \<Rightarrow> [] | Some d \<Rightarrow> [toLink unicode_lower d])
      else [])"

text \<open>\<^verbatim>\<open>subreddit.kind === 'Listing' && subreddit.data && subreddit.data.children\<close>.\<close>

definition listing_links :: "(jsstring \<Rightarrow> jsstring) \<Rightarrow> listing \<Rightarrow> link list" where
  "listing_links unicode_lower s =
     (if l_kind s = str ''Listing''
      then (case l_children s of None \<Rightarrow> [] | Some cs \<Rightarrow> concat (map (child_links unicode_lower) cs))
      else [])"

text \<open>The four clauses of the filter (lines 104 to 117).\<close>

definition score_clause :: "config \<Rightarrow> link \<Rightarrow> bool" where
  "score_clause options l =
     (js_not (score l) \<or> js_ge (num (score l)) (int_num (opt_score options)))"

definition domain_clause :: "(jsstring \<Rightarrow> jsstring) \<Rightarrow> config \<Rightarrow> link \<Rightarrow> bool" where
  "domain_clause unicode_lower options l =
     (case opt_domains options of
        None \<Rightarrow> True
      | Some ds \<Rightarrow> length ds = 0 \<or> indexOf ds (toLowerCase unicode_lower (domain l)) \<ge> 0)"

definition type_clause :: "config \<Rightarrow> link \<Rightarrow> bool" where
  "type_clause options l =
     (case opt_types options of
        None \<Rightarrow> True
      | Some ts \<Rightarrow> length ts = 0 \<or> indexOf ts (ltype l) \<ge> 0)"

definition resolution_clause :: "config \<Rightarrow> link \<Rightarrow> bool" where
  "resolution_clause options l =
     (case opt_resolution options of
        None \<Rightarrow> True
      | Some wanted \<Rightarrow>
          (case resolution l of
             None \<Rightarrow> False
           | Some r \<Rightarrow> js_ge (width r) (width wanted) \<and> js_ge (height r) (height wanted)))"

definition passes :: "(jsstring \<Rightarrow> jsstring) \<Rightarrow> config \<Rightarrow> link \<Rightarrow> bool" where
  "passes unicode_lower options l =
     (score_clause options l \<and> domain_clause unicode_lower options l
      \<and> type_clause options l \<and> resolution_clause options l)"

definition filtered_links ::
  "(jsstring \<Rightarrow> jsstring) \<Rightarrow> config \<Rightarrow> listing list \<Rightarrow> link list" where
  "filtered_links unicode_lower options subreddits =
     filter (passes unicode_lower options)
       (concat (map (listing_links unicode_lower) subreddits))"

subsection \<open>Ranking\<close>

text \<open>
  \<^verbatim>\<open>
  function heat(link) {
     let order = Math.log10(Math.max(link.score, 1));
     var sign;
     if (link.score > 0) { sign = 1; } else if (link.score < 0) { sign = -1; } else { sign = 0; }
     let seconds = link.createdUtc - 1134028003;
     return Math.round(sign * order + seconds / 45000, 7);
  }
  \<close>
  The second argument of \<^verbatim>\<open>Math.round\<close> has no effect.
\<close>

definition heat :: "'a ranking_scheme \<Rightarrow> jsnum" where
  "heat l =
     (let order = js_log10 (js_max (num (score l)) (Fin 1));
          sign = (if js_gt (num (score l)) (Fin 0) then Fin 1
                  else if js_lt (num (score l)) (Fin 0) then Fin (- 1)
                  else Fin 0);
          seconds = js_sub (int_num (createdUtc l)) (Fin 1134028003)
      in js_round (js_add (js_mul sign order) (js_div seconds (Fin 45000))))"

text \<open>
  \<^verbatim>\<open>
  function controversy(link) {
     if (link.downs < 0 || link.ups < 0) { return 0; }
     let magnitude = link.ups + link.downs;
     let balance = link.ups > link.downs ? (link.downs / link.ups) : (link.ups / link.downs);
     return Math.pow(magnitude, balance);
  }
  \<close>
\<close>

definition controversy :: "'a ranking_scheme \<Rightarrow> jsnum" where
  "controversy l =
     (if js_lt (int_num (downs l)) (Fin 0) \<or> js_lt (int_num (ups l)) (Fin 0) then Fin 0
      else
        let magnitude = js_add (int_num (ups l)) (int_num (downs l));
            balance = (if js_gt (int_num (ups l)) (int_num (downs l))
                       then js_div (int_num (downs l)) (int_num (ups l))
                       else js_div (int_num (ups l)) (int_num (downs l)))
        in js_pow magnitude balance)"

text \<open>The ranking properties and the two metrics of a candidate.\<close>

fun c_score :: "candidate \<Rightarrow> jsnum" where
  "c_score DefaultLink = num (score defaultLink)"
| "c_score (Link l) = num (score l)"

fun c_createdUtc :: "candidate \<Rightarrow> jsnum" where
  "c_createdUtc DefaultLink = int_num (createdUtc defaultLink)"
| "c_createdUtc (Link l) = int_num (createdUtc l)"

fun c_heat :: "candidate \<Rightarrow> jsnum" where
  "c_heat DefaultLink = heat defaultLink"
| "c_heat (Link l) = heat l"

fun c_controversy :: "candidate \<Rightarrow> jsnum" where
  "c_controversy DefaultLink = controversy defaultLink"
| "c_controversy (Link l) = controversy l"

text \<open>
  \<^verbatim>\<open>
  function selectLink(sort) {
     switch (sort) {
        case 'top': return (x, y) => x.score > y.score ? x : y;
        case 'hot': return (x, y) => heat(x) > heat(y) ? x : y;
        case 'controversial': return (x, y) => controversy(x) > controversy(y) ? x : y;
        case 'new': return (x, y) => x.createdUtc > y.createdUtc ? x : y;
        default: throw new Error('Unknown sort ' + sort);
     }
  }
  \<close>
  In each comparator \<open>x\<close> is the accumulator of the fold and \<open>y\<close> the next link.
\<close>

definition keep_greater :: "(candidate \<Rightarrow> jsnum) \<Rightarrow> candidate \<Rightarrow> candidate \<Rightarrow> candidate" where
  "keep_greater key x y = (if js_gt (key x) (key y) then x else y)"

definition selectLink :: "jsstring \<Rightarrow> error + (candidate \<Rightarrow> candidate \<Rightarrow> candidate)" where
  "selectLink sort_name =
     (if sort_name = str ''top'' then Inr (keep_greater c_score)
      else if sort_name = str ''hot'' then Inr (keep_greater c_heat)
      else if sort_name = str ''controversial'' then Inr (keep_greater c_controversy)
      else if sort_name = str ''new'' then Inr (keep_greater c_createdUtc)
      else Inl (UnknownSort sort_name))"

subsection \<open>The file system probe and the selection\<close>

text \<open>
  The file system is what \<^verbatim>\<open>fs.statAsync\<close> answers for each path: an error, or the
  \<^verbatim>\<open>Stats\<close> object. A promise is its outcome, \<open>Inl\<close> for a rejection; \<open>p_then\<close> and
  \<open>p_catch\<close> are \<^verbatim>\<open>.then\<close> and \<^verbatim>\<open>.catch\<close>.
\<close>

record stats =
  isFile :: bool
  isDirectory :: bool

type_synonym filesystem = "jsstring \<Rightarrow> error + stats"

definition p_then :: "error + 'a \<Rightarrow> ('a \<Rightarrow> error + 'b) \<Rightarrow> error + 'b" where
  "p_then p f = (case p of Inl e \<Rightarrow> Inl e | Inr v \<Rightarrow> f v)"

definition p_catch :: "error + 'a \<Rightarrow> (error \<Rightarrow> error + 'a) \<Rightarrow> error + 'a" where
  "p_catch p f = (case p of Inl e \<Rightarrow> f e | Inr v \<Rightarrow> Inr v)"

text \<open>
  \<^verbatim>\<open>
  function fileExists(filePath) {
     return filePath
        ? fs.statAsync(filePath).then(file => file.isFile()).catch(() => false)
        : Promise.resolve(false);
  }
  \<close>
  The argument is a string or \<^verbatim>\<open>undefined\<close>; the empty string is falsy as well.
\<close>

definition fileExists :: "filesystem \<Rightarrow> jsstring option \<Rightarrow> error + bool" where
  "fileExists fs filePath =
     (case filePath of
        None \<Rightarrow> Inr False
      | Some p \<Rightarrow>
          if p = [] then Inr False
          else p_catch (p_then (fs p) (\<lambda>file. Inr (isFile file))) (\<lambda>e. Inr False))"

text \<open>\<^verbatim>\<open>Promise.filter(xs, f)\<close>: the elements whose promise resolves to true, in their
  order; rejected as soon as one call throws or rejects.\<close>

fun promise_filter :: "('a \<Rightarrow> error + bool) \<Rightarrow> 'a list \<Rightarrow> error + 'a list" where
  "promise_filter f [] = Inr []"
| "promise_filter f (x # xs) =
     p_then (f x) (\<lambda>keep.
       p_then (promise_filter f xs) (\<lambda>ys. Inr (if keep then x # ys else ys)))"

text \<open>The callback of \<^verbatim>\<open>Promise.filter\<close> at line 121:
  \<^verbatim>\<open>link => fileExists(urlFilePath(link.url, options.directory)).then(exists => !exists)\<close>.\<close>

definition not_downloaded ::
  "(jsstring \<Rightarrow> jsstring \<Rightarrow> jsstring) \<Rightarrow> filesystem \<Rightarrow> config \<Rightarrow> link \<Rightarrow> error + bool" where
  "not_downloaded path_join fs options l =
     p_then (urlFilePath path_join (url l) (opt_directory options)) (\<lambda>filePath.
       p_then (fileExists fs filePath) (\<lambda>exists. Inr (\<not> exists)))"

text \<open>\<^verbatim>\<open>links.reduce(f, defaultLink)\<close> and \<^verbatim>\<open>Promise.reduce(links, f, defaultLink)\<close>.\<close>

definition reduce :: "(candidate \<Rightarrow> candidate \<Rightarrow> candidate) \<Rightarrow> link list \<Rightarrow> candidate" where
  "reduce f links = foldl f DefaultLink (map Link links)"

text \<open>
  Lines 119 to 126 of \<^verbatim>\<open>selectWallpaperLink\<close>, on the filtered links:
  \<^verbatim>\<open>
  if (options.shuffle) {
     return Promise.reduce(
        Promise.filter(links, link => fileExists(urlFilePath(link.url, options.directory)).then(exists => !exists)),
        selectLink(options.sort),
        defaultLink);
  }
  return Promise.resolve(links.reduce(selectLink(options.sort), defaultLink));
  \<close>
  \<^verbatim>\<open>selectLink\<close> is called while the arguments are evaluated, so its exception leaves
  the function before any promise is returned.
\<close>

definition select ::
  "(jsstring \<Rightarrow> jsstring \<Rightarrow> jsstring) \<Rightarrow> filesystem \<Rightarrow> config \<Rightarrow> link list \<Rightarrow> error + candidate" where
  "select path_join fs options links =
     (if opt_shuffle options
      then
        (let kept = promise_filter (not_downloaded path_join fs options) links
         in p_then (selectLink (opt_sort options)) (\<lambda>f.
              p_then kept (\<lambda>ls. Inr (reduce f ls))))
      else p_then (selectLink (opt_sort options)) (\<lambda>f. Inr (reduce f links)))"

definition selectWallpaperLink ::
  "(jsstring \<Rightarrow> jsstring \<Rightarrow> jsstring) \<Rightarrow> filesystem \<Rightarrow> (jsstring \<Rightarrow> jsstring) \<Rightarrow> config
     \<Rightarrow> listing list \<Rightarrow> error + candidate" where
  "selectWallpaperLink path_join fs unicode_lower options subreddits =
     select path_join fs options (filtered_links unicode_lower options subreddits)"

subsection \<open>Sample inputs\<close>

text \<open>A \<^verbatim>\<open>path.join\<close> for paths that need no normalising, a file system with no file,
  one where every path is a regular file, and links and configurations to run the
  functions on.\<close>

definition simple_join :: "jsstring \<Rightarrow> jsstring \<Rightarrow> jsstring" where
  "simple_join dir file = dir @ [47] @ file"

definition no_files :: filesystem where
  "no_files p = Inl (FsError 2)"

definition all_files :: filesystem where
  "all_files p = Inr \<lparr>isFile = True, isDirectory = False\<rparr>"

definition sample_link :: "int option \<Rightarrow> int \<Rightarrow> int \<Rightarrow> int \<Rightarrow> jsstring \<Rightarrow> link" where
  "sample_link s t u d address =
     \<lparr>score = s, createdUtc = t, ups = u, downs = d,
      url = address,
      subreddit = str ''wallpapers'',
      permalink = str ''/r/wallpapers/comments/1'',
      title = str ''Castle'',
      author = str ''someone'',
      domain = str ''i.imgur.com'',
      ltype = str ''jpg'',
      resolution = parseResolution (str ''Castle'')\<rparr>"

definition sample_config :: "jsstring \<Rightarrow> bool \<Rightarrow> config" where
  "sample_config sort_name shuffle =
     (defaults (str ''/home/me/.reddit-wallpaper''))
       \<lparr>opt_sort := sort_name, opt_shuffle := shuffle\<rparr>"

definition sample_raw :: "jsstring \<Rightarrow> jsstring \<Rightarrow> int option \<Rightarrow> raw" where
  "sample_raw address heading s =
     \<lparr>r_url = address,
      r_subreddit = str ''wallpapers'',
      r_permalink = str ''/r/wallpapers/comments/1'',
      r_title = heading,
      r_author = str ''someone'',
      r_score = s,
      r_ups = 10,
      r_downs = 0,
      r_created_utc = 1500000000,
      r_domain = str ''Example.com''\<rparr>"

definition one_listing :: "raw \<Rightarrow> listing" where
  "one_listing d =
     \<lparr>l_kind = str ''Listing'',
      l_children = Some [\<lparr>c_kind = str ''t3'', c_data = Some d\<rparr>]\<rparr>"

text \<open>A Unicode lower-casing that changes nothing; the samples are ASCII, where it is
  never called.\<close>

definition plain_lower :: "jsstring \<Rightarrow> jsstring" where
  "plain_lower s = s"

text \<open>A configuration with no type, domain or resolution constraint, built the way a
  caller would: by \<open>assignConfig\<close> from the defaults.\<close>

definition gallery_config :: config where
  "gallery_config =
     assignConfig (\<lambda>d. d) plain_lower (defaults (str ''/home/me/.reddit-wallpaper''))
       \<lparr>ov_subreddits = None, ov_sort = None, ov_from = None, ov_score = None,
        ov_domains = Some (Some []), ov_types = Some (Some []), ov_shuffle = None,
        ov_directory = None, ov_resolution = Some None, ov_files = None\<rparr>"

section \<open>Properties\<close>

subsection \<open>Numbers and the two metrics\<close>

lemma js_lt_irrefl: "\<not> js_lt a a"
  by (cases a) auto

lemma js_lt_NaN_right: "\<not> js_lt a NaN"
  by (cases a) auto

lemma controversy_negative: "ups l < 0 \<or> downs l < 0 \<Longrightarrow> controversy l = Fin 0"
  by (auto simp: controversy_def int_num_def)

text \<open>The only votes on which \<open>controversy\<close> is NaN are zero and zero.\<close>

lemma controversy_NaN_iff: "controversy l = NaN \<longleftrightarrow> ups l = 0 \<and> downs l = 0"
  by (auto simp: controversy_def int_num_def js_gt_def Let_def pow_fin_def)

lemma controversy_value:
  assumes "0 \<le> ups l" "0 \<le> downs l" "0 < ups l + downs l"
  shows "controversy l =
    Fin (real_of_int (ups l + downs l) powr
      (if downs l < ups l then real_of_int (downs l) / real_of_int (ups l)
       else real_of_int (ups l) / real_of_int (downs l)))"
  using assms by (auto simp: controversy_def int_num_def js_gt_def Let_def pow_fin_def)

lemma heat_absent_score: "score l = None \<Longrightarrow> heat l = NaN"
  by (simp add: heat_def js_gt_def)

lemma heat_value:
  "score l = Some s \<Longrightarrow>
   heat l = Fin (of_int \<lfloor>(if 0 < s then log 10 (real_of_int s) else 0)
                 + (real_of_int (createdUtc l) - 1134028003) / 45000 + 1 / 2\<rfloor>)"
  by (auto simp: heat_def js_gt_def int_num_def js_sub_def Let_def max_def)

text \<open>A later timestamp never gives a smaller \<open>heat\<close>.\<close>

lemma heat_monotone:
  assumes "t1 \<le> t2"
  shows "\<not> js_lt (heat (l\<lparr>createdUtc := t2\<rparr>)) (heat (l\<lparr>createdUtc := t1\<rparr>))"
proof (cases "score l")
  case None
  then show ?thesis by (simp add: heat_absent_score)
next
  case (Some s)
  have "(real_of_int t1 - 1134028003) / 45000 \<le> (real_of_int t2 - 1134028003) / 45000"
    using assms by (simp add: divide_right_mono)
  then have "\<lfloor>(if 0 < s then log 10 (real_of_int s) else 0) + (real_of_int t1 - 1134028003) / 45000 + 1 / 2\<rfloor>
      \<le> \<lfloor>(if 0 < s then log 10 (real_of_int s) else 0) + (real_of_int t2 - 1134028003) / 45000 + 1 / 2\<rfloor>"
    by (intro floor_mono) simp
  with Some show ?thesis by (simp add: heat_value)
qed

lemma heat_defaultLink: "heat defaultLink = Fin (- 25201)"
  by (simp add: heat_def defaultLink_def int_num_def js_gt_def js_sub_def)

text \<open>The seed's \<open>heat\<close> is not above that of a link created at or after the epoch.\<close>

lemma heat_seed_not_greater:
  assumes "0 \<le> createdUtc l"
  shows "\<not> js_gt (heat defaultLink) (heat l)"
proof (cases "score l")
  case None
  then show ?thesis by (simp add: heat_absent_score js_gt_def)
next
  case (Some s)
  define v where "v = (if 0 < s then log 10 (real_of_int s) else 0)
        + (real_of_int (createdUtc l) - 1134028003) / 45000 + 1 / 2"
  have heat_l: "heat l = Fin (of_int \<lfloor>v\<rfloor>)"
    using Some by (simp add: heat_value v_def)
  have "0 \<le> (if 0 < s then log 10 (real_of_int s) else 0)"
    by simp
  moreover have "(- 1134028003) / 45000 \<le> (real_of_int (createdUtc l) - 1134028003) / 45000"
    using assms by (simp add: divide_right_mono)
  ultimately have "(- 1134028003) / 45000 + 1 / 2 \<le> v"
    unfolding v_def by linarith
  then have "\<lfloor>(- 1134028003) / 45000 + 1 / (2::real)\<rfloor> \<le> \<lfloor>v\<rfloor>"
    by (rule floor_mono)
  moreover have "\<lfloor>(- 1134028003) / 45000 + 1 / (2::real)\<rfloor> = - 25201"
    by simp
  ultimately have "- 25201 \<le> \<lfloor>v\<rfloor>"
    by (simp only:)
  then have "\<not> real_of_int \<lfloor>v\<rfloor> < - 25201"
    by linarith
  then show ?thesis
    by (simp add: heat_l heat_defaultLink js_gt_def)
qed

subsection \<open>Strings and the two regular expressions\<close>

lemma indexOf_lower: "- 1 \<le> indexOf xs x"
  by (induction xs) (auto simp: Let_def)

lemma indexOf_found_iff: "0 \<le> indexOf xs x \<longleftrightarrow> x \<in> set xs"
  by (induction xs) (auto simp: Let_def)

lemma search_SomeD: "search try s = Some m \<Longrightarrow> \<exists>t. try t = Some m"
  by (induction s) (auto split: option.splits)

text \<open>The double of a natural number is a natural number or \<open>Infinity\<close>; below
  \<open>2^53\<close> it is the number itself, from \<open>2^1024\<close> on it is \<open>Infinity\<close>, and
  \<open>2^53 + 1\<close>, half way between two doubles, goes to the even one.\<close>

lemma to_double_cases: "to_double n = PInf \<or> (\<exists>m::nat. to_double n = Fin (real m))"
  by (auto simp: to_double_def)

lemma to_double_exact: "n < 2 ^ 53 \<Longrightarrow> to_double n = Fin (real n)"
  by (simp add: to_double_def)

lemma bits_eq: "2 ^ k \<le> n \<Longrightarrow> n < 2 ^ Suc k \<Longrightarrow> bits n = Suc k"
proof (induction k arbitrary: n)
  case 0
  then have "n = 1" by simp
  then show ?case by (simp add: bits.simps)
next
  case (Suc k)
  have "2 ^ k \<le> n div 2" "n div 2 < 2 ^ Suc k"
    using Suc.prems by auto
  then have "bits (n div 2) = Suc k"
    by (rule Suc.IH)
  moreover have "n \<noteq> 0"
    using Suc.prems(1) zero_less_power [of "2::nat" "Suc k"] by linarith
  ultimately show ?case
    by (subst bits.simps) simp
qed

lemma bits_lower: "0 < n \<Longrightarrow> 2 ^ (bits n - 1) \<le> n"
proof (induction n rule: bits.induct)
  case (1 n)
  show ?case
  proof (cases "n div 2 = 0")
    case True
    then show ?thesis using "1.prems" by (subst bits.simps) (simp add: bits.simps)
  next
    case False
    then have "2 ^ (bits (n div 2) - 1) \<le> n div 2"
      using "1.IH" "1.prems" by simp
    moreover have "bits (n div 2) \<noteq> 0"
      using False by (subst bits.simps) simp
    ultimately have "2 ^ bits (n div 2) \<le> 2 * (n div 2)"
      by (cases "bits (n div 2)") auto
    then have "2 ^ bits (n div 2) \<le> n"
      by linarith
    then show ?thesis
      using "1.prems" by (subst bits.simps) simp
  qed
qed

lemma bits_mono_pow: "2 ^ k \<le> n \<Longrightarrow> k < bits n"
proof (induction k arbitrary: n)
  case 0
  then show ?case by (subst bits.simps) auto
next
  case (Suc k)
  then have "2 ^ k \<le> n div 2" by auto
  then have "k < bits (n div 2)" by (rule Suc.IH)
  moreover have "n \<noteq> 0"
    using Suc.prems zero_less_power [of "2::nat" "Suc k"] by linarith
  ultimately show ?case by (subst bits.simps) simp
qed

lemma nearest_lower: "2 ^ 53 \<le> n \<Longrightarrow> 2 ^ (bits n - 1) \<le> nearest n"
proof -
  assume n: "2 ^ 53 \<le> n"
  then have b: "53 < bits n" by (rule bits_mono_pow)
  define k where "k = bits n - 53"
  have "0 < n" using n by (simp add: order.strict_trans2 [of 0 "2 ^ 53"])
  then have "2 ^ (bits n - 1) \<le> n" by (rule bits_lower)
  moreover have "bits n - 1 = 52 + k" using b by (simp add: k_def)
  ultimately have "2 ^ 52 * 2 ^ k \<le> n" by (simp add: power_add)
  then have "2 ^ 52 \<le> n div 2 ^ k"
    by (simp add: less_eq_div_iff_mult_less_eq)
  then have "2 ^ 52 * 2 ^ k \<le> (if 2 ^ (k - 1) < n mod 2 ^ k \<or> (n mod 2 ^ k = 2 ^ (k - 1) \<and> odd (n div 2 ^ k))
       then n div 2 ^ k + 1 else n div 2 ^ k) * 2 ^ k"
    by (intro mult_le_mono1) auto
  then show ?thesis
    using \<open>bits n - 1 = 52 + k\<close> by (simp add: nearest_def Let_def k_def [symmetric] power_add)
qed

lemma to_double_overflow: "2 ^ 1024 \<le> n \<Longrightarrow> to_double n = PInf"
proof -
  assume n: "2 ^ 1024 \<le> n"
  then have "1024 < bits n" by (rule bits_mono_pow)
  then have "(2::nat) ^ 1024 \<le> 2 ^ (bits n - 1)"
    by (intro power_increasing) auto
  moreover have "(2::nat) ^ 53 \<le> n"
    using n by (rule order_trans [rotated]) simp
  then have "2 ^ (bits n - 1) \<le> nearest n" by (rule nearest_lower)
  ultimately have "2 ^ 1024 \<le> nearest n" by (rule order_trans)
  moreover have "\<not> n < 2 ^ 53" using \<open>(2::nat) ^ 53 \<le> n\<close> by simp
  ultimately show ?thesis
    by (simp only: to_double_def not_less [symmetric] if_False)
qed

lemma to_double_tie: "to_double 9007199254740993 = Fin 9007199254740992"
proof -
  have "bits 9007199254740993 = Suc 53"
    by (rule bits_eq) simp_all
  then have "nearest 9007199254740993 = 9007199254740992"
    by (simp add: nearest_def Let_def)
  then show ?thesis
    by (simp add: to_double_def)
qed

text \<open>On a non-empty run of decimal digits \<open>parseInt\<close> is the double of its value.\<close>

lemma parseInt_digits:
  assumes "ds \<noteq> []" and "\<forall>c\<in>set ds. is_digit c"
  shows "parseInt ds = to_double (radix_value 10 ds)"
proof -
  obtain c cs where ds: "ds = c # cs"
    using assms(1) by (cases ds) auto
  have c: "is_digit c"
    using assms(2) ds by simp
  then have "\<not> is_space c" "c \<noteq> 45" "c \<noteq> 43"
    by (auto simp: is_digit_def is_space_def)
  then have sign: "parseInt ds = parse_unsigned ds"
    by (simp add: parseInt_def ds)
  have "cs \<noteq> [] \<Longrightarrow> hd cs \<noteq> 120 \<and> hd cs \<noteq> 88"
    using assms(2) ds by (cases cs) (auto simp: is_digit_def)
  then have "parse_unsigned ds = parse_digits 10 is_digit ds"
    by (cases cs) (auto simp: parse_unsigned_def ds)
  moreover have "takeWhile is_digit ds = ds"
    using assms(2) by simp
  ultimately show ?thesis
    using assms(1) sign by (simp add: parse_digits_def)
qed

text \<open>A match of the resolution expression has the whole match and two groups of digits.\<close>

lemma resolution_at_groups:
  assumes "resolution_at s = Some m"
  shows "length m = 3 \<and> m ! 1 \<noteq> [] \<and> m ! 2 \<noteq> []
    \<and> (\<forall>c\<in>set (m ! 1). is_digit c) \<and> (\<forall>c\<in>set (m ! 2). is_digit c)"
  using assms
  by (auto simp: resolution_at_def Let_def split: if_splits dest: set_takeWhileD)

lemma resolution_groups_parse:
  assumes "resolution_at s = Some m"
  shows "parseInt (m ! 1) = to_double (radix_value 10 (m ! 1))"
    and "parseInt (m ! 2) = to_double (radix_value 10 (m ! 2))"
proof -
  note g = resolution_at_groups [OF assms]
  from g show "parseInt (m ! 1) = to_double (radix_value 10 (m ! 1))"
    by (intro parseInt_digits) blast+
  from g show "parseInt (m ! 2) = to_double (radix_value 10 (m ! 2))"
    by (intro parseInt_digits) blast+
qed

lemma parseResolution_SomeD:
  assumes "parseResolution t = Some r"
  shows "\<exists>m. search resolution_at t = Some m
    \<and> r = \<lparr>width = parseInt (m ! 1), height = parseInt (m ! 2)\<rparr>"
  using assms by (auto simp: parseResolution_def split: option.splits if_splits)

lemma parseInt_small:
  "parseInt (str ''1920'') = Fin 1920" "parseInt (str ''1080'') = Fin 1080"
  "parseInt (str ''0'') = Fin 0" "parseInt (str ''1'') = Fin 1"
  by (simp_all add: parseInt_digits to_double_exact str_def is_digit_def radix_value_def
      digit_value_def)

lemma parseResolution_sample:
  "parseResolution (str ''Castle [1920x1080]'')
     = Some \<lparr>width = Fin 1920, height = Fin 1080\<rparr>"
proof -
  have "search resolution_at (str ''Castle [1920x1080]'')
      = Some [str ''[1920x1080]'', str ''1920'', str ''1080'']"
    by (simp add: str_def resolution_at_def is_space_def is_digit_def is_sep_def Let_def)
  then show ?thesis
    by (simp add: parseResolution_def parseInt_small)
qed

text \<open>A width of seventeen digits is rounded to the nearest double, and a group of 310
  digits or more that does not start with a zero gives \<open>Infinity\<close>.\<close>

lemma parseResolution_rounds:
  "parseResolution (str ''[9007199254740993x1]'')
     = Some \<lparr>width = Fin 9007199254740992, height = Fin 1\<rparr>"
proof -
  have "search resolution_at (str ''[9007199254740993x1]'')
      = Some [str ''[9007199254740993x1]'', str ''9007199254740993'', str ''1'']"
    by (simp add: str_def resolution_at_def is_space_def is_digit_def is_sep_def Let_def)
  moreover have "parseInt (str ''9007199254740993'') = to_double 9007199254740993"
    by (simp add: parseInt_digits str_def is_digit_def radix_value_def digit_value_def)
  ultimately show ?thesis
    by (simp add: parseResolution_def parseInt_small to_double_tie)
qed

lemma foldl_radix_lower:
  "a * 10 ^ length ds \<le> foldl (\<lambda>a c. 10 * a + digit_value c) a ds"
proof (induction ds arbitrary: a)
  case Nil
  then show ?case by simp
next
  case (Cons d ds)
  have "a * 10 ^ length (d # ds) = (10 * a) * 10 ^ length ds"
    by simp
  also have "\<dots> \<le> (10 * a + digit_value d) * 10 ^ length ds"
    by (intro mult_le_mono1) simp
  also have "\<dots> \<le> foldl (\<lambda>a c. 10 * a + digit_value c) (10 * a + digit_value d) ds"
    by (rule Cons.IH)
  finally show ?case by simp
qed

lemma parseInt_overflow:
  assumes "\<forall>c\<in>set (d # ds). is_digit c" and "d \<noteq> 48" and "309 \<le> length ds"
  shows "parseInt (d # ds) = PInf"
proof -
  have "1 \<le> digit_value d"
    using assms(1,2) by (auto simp: digit_value_def is_digit_def)
  then have "1 * 10 ^ length ds \<le> digit_value d * 10 ^ length ds"
    by (intro mult_le_mono1)
  also have "\<dots> \<le> radix_value 10 (d # ds)"
    using foldl_radix_lower [of "digit_value d" ds] by (simp add: radix_value_def)
  finally have "10 ^ length ds \<le> radix_value 10 (d # ds)"
    by simp
  moreover have "(10::nat) ^ 309 \<le> 10 ^ length ds"
    using assms(3) by (intro power_increasing) auto
  moreover have "(2::nat) ^ 1024 \<le> 10 ^ 309"
    by simp
  ultimately have "2 ^ 1024 \<le> radix_value 10 (d # ds)"
    by linarith
  then show ?thesis
    using assms(1) by (simp add: parseInt_digits to_double_overflow)
qed

text \<open>A match of the file expression has four entries; the extension is made of word
  characters, which are ASCII.\<close>

lemma file_at_groups:
  assumes "file_at s = Some m"
  shows "length m = 4 \<and> m ! 1 \<noteq> [] \<and> m ! 2 \<noteq> []
    \<and> (\<forall>c\<in>set (m ! 1). is_name c) \<and> (\<forall>c\<in>set (m ! 2). is_word c)"
  using assms
  by (auto simp: file_at_def Let_def split: if_splits dest: set_takeWhileD)

lemma matchFile_groups:
  "matchFile u = Some m \<Longrightarrow> length m = 4 \<and> (\<forall>c\<in>set (m ! 2). is_word c)"
  by (auto simp: matchFile_def split: option.splits if_splits dest!: search_SomeD file_at_groups)

lemma matchFile_sample:
  "matchFile (str ''http://i.imgur.com/a.jpg'') = Some [str ''a.jpg'', str ''a'', str ''jpg'', []]"
  by (simp add: matchFile_def str_def file_at_def is_name_def is_word_def is_upper_def
      is_lower_def is_digit_def is_space_def Let_def)

lemma urlFilePath_no_match:
  "matchFile u = None \<Longrightarrow> urlFilePath path_join u dir = Inl TypeError"
  by (simp add: urlFilePath_def)

lemma parseType_no_match: "matchFile u = None \<Longrightarrow> parseType unicode_lower u = []"
  by (simp add: parseType_def)

text \<open>Lower-casing an ASCII string gives an ASCII string with no letter \<open>A\<close> to
  \<open>Z\<close>; the type of a link is such a string, whatever the Unicode lower-casing is.\<close>

lemma toLowerCase_ascii:
  assumes "list_all (\<lambda>c. c < 128) s"
  shows "list_all (\<lambda>c. c < 128 \<and> \<not> is_upper c) (toLowerCase unicode_lower s)"
  using assms
  by (auto simp: toLowerCase_def list_all_iff lower_unit_def is_upper_def)

lemma is_word_ascii: "is_word c \<Longrightarrow> c < 128"
  by (auto simp: is_word_def is_upper_def is_lower_def is_digit_def)

lemma parseType_ascii: "list_all (\<lambda>c. c < 128) (parseType unicode_lower u)"
proof (cases "matchFile u")
  case None
  then show ?thesis by (simp add: parseType_no_match)
next
  case (Some m)
  then have "list_all (\<lambda>c. c < 128) (m ! 2)"
    using matchFile_groups [of u m] by (auto simp: list_all_iff is_word_ascii)
  then have "list_all (\<lambda>c. c < 128) (toLowerCase unicode_lower (m ! 2))"
    using toLowerCase_ascii [of "m ! 2" unicode_lower] by (auto simp: list_all_iff)
  with Some show ?thesis by (simp add: parseType_def)
qed

lemma ltype_toLink_no_upper:
  "c \<in> set (ltype (toLink unicode_lower d)) \<Longrightarrow> \<not> is_upper c"
  using toLowerCase_ascii [OF parseType_ascii, of unicode_lower unicode_lower "r_url d"]
  by (auto simp: toLink_def list_all_iff)

lemma type_clause_member:
  "type_clause options l \<longleftrightarrow>
     (case opt_types options of None \<Rightarrow> True | Some ts \<Rightarrow> ts = [] \<or> ltype l \<in> set ts)"
  by (simp add: type_clause_def indexOf_found_iff split: option.splits)

subsection \<open>The comparators and the fold\<close>

lemma selectLink_top: "selectLink (str ''top'') = Inr (keep_greater c_score)"
  by (simp add: selectLink_def)

lemma selectLink_hot: "selectLink (str ''hot'') = Inr (keep_greater c_heat)"
  by (simp add: selectLink_def str_def)

lemma selectLink_controversial:
  "selectLink (str ''controversial'') = Inr (keep_greater c_controversy)"
  by (simp add: selectLink_def str_def)

lemma selectLink_new: "selectLink (str ''new'') = Inr (keep_greater c_createdUtc)"
  by (simp add: selectLink_def str_def)

lemma selectLink_known:
  assumes "sort_name \<in> {str ''top'', str ''hot'', str ''controversial'', str ''new''}"
  shows "\<exists>f. selectLink sort_name = Inr f"
  using assms selectLink_top selectLink_hot selectLink_controversial selectLink_new
  by auto

text \<open>The fold returns its seed or one of the elements; an element that nothing before it
  strictly beats and that strictly beats everything after it is the result.\<close>

lemma foldl_keep_greater_member: "foldl (keep_greater k) a xs \<in> set (a # xs)"
  by (induction xs arbitrary: a) (auto simp: keep_greater_def)

lemma foldl_keep_greater_stays:
  "\<forall>y\<in>set ys. js_gt (k c) (k y) \<Longrightarrow> foldl (keep_greater k) c ys = c"
  by (induction ys) (auto simp: keep_greater_def)

lemma foldl_keep_greater_last_unbeaten:
  assumes "\<forall>z\<in>set (a # xs). \<not> js_gt (k z) (k c)"
      and "\<forall>y\<in>set ys. js_gt (k c) (k y)"
  shows "foldl (keep_greater k) a (xs @ c # ys) = c"
proof -
  have "foldl (keep_greater k) a xs \<in> set (a # xs)"
    by (rule foldl_keep_greater_member)
  with assms(1) have "keep_greater k (foldl (keep_greater k) a xs) c = c"
    by (auto simp: keep_greater_def)
  with assms(2) show ?thesis
    by (simp add: foldl_keep_greater_stays)
qed

subsection \<open>The probe and the exclusion step\<close>

lemma fileExists_resolves: "\<exists>b. fileExists fs p = Inr b"
  by (auto simp: fileExists_def p_catch_def p_then_def split: option.splits sum.splits)

lemma fileExists_never_rejects: "fileExists fs p \<noteq> Inl e"
  using fileExists_resolves [of fs p] by auto

lemma not_downloaded_error:
  "not_downloaded path_join fs options l = Inl e \<Longrightarrow> e = TypeError"
  by (auto simp: not_downloaded_def p_then_def urlFilePath_def fileExists_never_rejects
      split: sum.splits option.splits if_splits)

lemma promise_filter_none_kept:
  "\<forall>l\<in>set links. f l = Inr False \<Longrightarrow> promise_filter f links = Inr []"
  by (induction links) (auto simp: p_then_def)

lemma promise_filter_rejects:
  assumes "\<And>l e. f l = Inl e \<Longrightarrow> e = TypeError"
      and "\<exists>l\<in>set links. f l = Inl TypeError"
  shows "promise_filter f links = Inl TypeError"
  using assms(2)
proof (induction links)
  case Nil
  then show ?case by simp
next
  case (Cons x xs)
  show ?case
  proof (cases "f x")
    case (Inl e)
    then show ?thesis using assms(1) by (simp add: p_then_def)
  next
    case (Inr keep)
    with Cons show ?thesis by (auto simp: p_then_def)
  qed
qed

text \<open>An unknown sort mode fails the selection on both paths.\<close>

lemma select_unknown_sort:
  "selectLink (opt_sort options) = Inl e \<Longrightarrow> select path_join fs options links = Inl e"
  by (simp add: select_def p_then_def Let_def)

text \<open>With shuffle on and a known sort mode, one link whose URL the file expression does
  not match makes the whole selection fail.\<close>

lemma select_shuffle_unparseable:
  assumes "opt_shuffle options"
      and "opt_sort options \<in> {str ''top'', str ''hot'', str ''controversial'', str ''new''}"
      and "l \<in> set links" and "matchFile (url l) = None"
  shows "select path_join fs options links = Inl TypeError"
proof -
  have "not_downloaded path_join fs options l = Inl TypeError"
    using assms(4) by (simp add: not_downloaded_def p_then_def urlFilePath_no_match)
  with assms(3) have "promise_filter (not_downloaded path_join fs options) links = Inl TypeError"
    by (intro promise_filter_rejects) (auto dest: not_downloaded_error)
  moreover obtain f where "selectLink (opt_sort options) = Inr f"
    using selectLink_known [OF assms(2)] by blast
  ultimately show ?thesis
    using assms(1) by (simp add: select_def p_then_def)
qed

subsection \<open>The claims\<close>

text \<open>
  C1, as the code has it. The comparator of sort mode \<open>top\<close> is
  \<^verbatim>\<open>(x, y) => x.score > y.score ? x : y\<close> with \<open>x\<close> the accumulator: it keeps the
  accumulator only when its score is strictly greater, and on equal scores it returns the
  new candidate. So among candidates of equal score the later one wins: a candidate \<open>c\<close>
  that neither the seed nor any earlier candidate strictly beats (earlier candidates with
  the same score included) and that strictly beats every later candidate is the result of
  the fold.
\<close>

theorem top_tie_later_wins:
  assumes "\<not> js_gt (num (Some 0)) (num (score c))"
      and "\<forall>z\<in>set xs. \<not> js_gt (num (score z)) (num (score c))"
      and "\<forall>y\<in>set ys. js_gt (num (score c)) (num (score y))"
  shows "\<exists>f. selectLink (str ''top'') = Inr f
           \<and> (\<forall>x y. c_score x = c_score y \<longrightarrow> f x y = y)
           \<and> reduce f (xs @ c # ys) = Link c"
proof -
  have "foldl (keep_greater c_score) DefaultLink (map Link xs @ Link c # map Link ys) = Link c"
    using assms by (intro foldl_keep_greater_last_unbeaten) (auto simp: defaultLink_def)
  moreover have "\<forall>x y. c_score x = c_score y \<longrightarrow> keep_greater c_score x y = y"
    by (simp add: keep_greater_def js_gt_def js_lt_irrefl)
  ultimately show ?thesis
    by (simp add: selectLink_top reduce_def)
qed

text \<open>The theorem on three links with scores 200, 200 and 150: the second one wins.\<close>

theorem top_tie_later_wins_witness:
  "\<exists>f. selectLink (str ''top'') = Inr f
     \<and> reduce f ([sample_link (Some 200) 10 5 1 (str ''http://i.imgur.com/a.jpg'')]
          @ sample_link (Some 200) 20 5 1 (str ''http://i.imgur.com/b.jpg'')
          # [sample_link (Some 150) 30 5 1 (str ''http://i.imgur.com/c.jpg'')])
       = Link (sample_link (Some 200) 20 5 1 (str ''http://i.imgur.com/b.jpg''))"
  using top_tie_later_wins
    [of "sample_link (Some 200) 20 5 1 (str ''http://i.imgur.com/b.jpg'')"
        "[sample_link (Some 200) 10 5 1 (str ''http://i.imgur.com/a.jpg'')]"
        "[sample_link (Some 150) 30 5 1 (str ''http://i.imgur.com/c.jpg'')]"]
  by (auto simp: sample_link_def js_gt_def int_num_def)

text \<open>Two different links with the same score, sort mode \<open>top\<close>, shuffle off: the
  selection returns the second, not the first.\<close>

theorem top_tie_first_loses:
  "select simple_join no_files (sample_config (str ''top'') False)
     [sample_link (Some 200) 10 5 1 (str ''http://i.imgur.com/a.jpg''),
      sample_link (Some 200) 20 5 1 (str ''http://i.imgur.com/b.jpg'')]
   = Inr (Link (sample_link (Some 200) 20 5 1 (str ''http://i.imgur.com/b.jpg'')))
   \<and> score (sample_link (Some 200) 10 5 1 (str ''http://i.imgur.com/a.jpg''))
     = score (sample_link (Some 200) 20 5 1 (str ''http://i.imgur.com/b.jpg''))
   \<and> sample_link (Some 200) 10 5 1 (str ''http://i.imgur.com/a.jpg'')
     \<noteq> sample_link (Some 200) 20 5 1 (str ''http://i.imgur.com/b.jpg'')"
  by (simp add: select_def sample_config_def defaults_def selectLink_top p_then_def reduce_def
      keep_greater_def js_gt_def int_num_def sample_link_def defaultLink_def)

text \<open>
  C2. The claim: \<open>controversy\<close> is exactly \<open>0\<close> when \<open>ups\<close> and \<open>downs\<close> are both
  \<open>0\<close>, is \<open>0\<close> when one of them is negative, and is \<open>20\<close> on ten up and ten down
  votes. The code guards only the negative counts: on zero and zero it divides \<open>0\<close> by
  \<open>0\<close> and returns \<^verbatim>\<open>Math.pow(0, NaN)\<close>, which is NaN. That is also the value on the
  seed \<open>defaultLink\<close>. The other two parts of the claim hold.
\<close>

theorem controversy_zero_votes_is_NaN:
  "controversy \<lparr>score = Some 0, createdUtc = 0, ups = 0, downs = 0\<rparr> = NaN
   \<and> controversy defaultLink = NaN
   \<and> controversy \<lparr>score = Some 0, createdUtc = 0, ups = - 1, downs = 5\<rparr> = Fin 0
   \<and> controversy \<lparr>score = Some 0, createdUtc = 0, ups = 10, downs = 10\<rparr> = Fin 20"
  by (simp add: controversy_def defaultLink_def int_num_def js_gt_def pow_fin_def)

text \<open>
  C3. The claim: for a link whose URL has no \<open>name.ext\<close> form the exclusion step raises
  no error, the target path is undefined, the probe answers "does not exist" and the link
  stays eligible. \<open>parseType\<close> tests \<^verbatim>\<open>match && match.length > 2\<close> and returns the
  empty type, and \<open>fileExists\<close> answers false for an undefined path, but \<open>urlFilePath\<close>
  reads \<^verbatim>\<open>match.length\<close> with no test and throws. With no type constraint such a link
  passes the filter, and with shuffle on the selection is rejected with that error.
\<close>

theorem unparseable_url_rejects_selection:
  "matchFile (str ''http://example.com/gallery/abc'') = None
   \<and> parseType unicode_lower (str ''http://example.com/gallery/abc'') = []
   \<and> urlFilePath simple_join (str ''http://example.com/gallery/abc'')
        (opt_directory gallery_config) = Inl TypeError
   \<and> filtered_links unicode_lower gallery_config
        [one_listing (sample_raw (str ''http://example.com/gallery/abc'') (str ''Castle'') (Some 200))]
      = [toLink unicode_lower (sample_raw (str ''http://example.com/gallery/abc'') (str ''Castle'') (Some 200))]
   \<and> selectWallpaperLink simple_join no_files unicode_lower gallery_config
        [one_listing (sample_raw (str ''http://example.com/gallery/abc'') (str ''Castle'') (Some 200))]
      = Inl TypeError"
proof -
  have no_match: "matchFile (str ''http://example.com/gallery/abc'') = None"
    by (simp add: matchFile_def str_def file_at_def is_name_def is_word_def is_upper_def
        is_lower_def is_digit_def is_space_def Let_def)
  have cfg: "opt_shuffle gallery_config" "opt_sort gallery_config = str ''top''"
    "opt_types gallery_config = Some []" "opt_domains gallery_config = Some []"
    "opt_resolution gallery_config = None" "opt_score gallery_config = 100"
    by (simp_all add: gallery_config_def assignConfig_def defaults_def assign_def Let_def)
  have "passes unicode_lower gallery_config
      (toLink unicode_lower (sample_raw (str ''http://example.com/gallery/abc'') (str ''Castle'') (Some 200)))"
    by (simp add: passes_def score_clause_def domain_clause_def type_clause_def
        resolution_clause_def cfg js_ge_def int_num_def toLink_def sample_raw_def)
  then have links: "filtered_links unicode_lower gallery_config
        [one_listing (sample_raw (str ''http://example.com/gallery/abc'') (str ''Castle'') (Some 200))]
      = [toLink unicode_lower (sample_raw (str ''http://example.com/gallery/abc'') (str ''Castle'') (Some 200))]"
    by (simp add: filtered_links_def listing_links_def one_listing_def child_links_def
        str_def toLowerCase_def lower_unit_def is_upper_def)
  have sort: "opt_sort gallery_config \<in> {str ''top'', str ''hot'', str ''controversial'', str ''new''}"
    by (simp add: cfg)
  have unparseable: "matchFile (url (toLink unicode_lower (sample_raw (str ''http://example.com/gallery/abc'')
      (str ''Castle'') (Some 200)))) = None"
    by (simp add: toLink_def sample_raw_def no_match)
  have "select simple_join no_files gallery_config
        [toLink unicode_lower (sample_raw (str ''http://example.com/gallery/abc'') (str ''Castle'') (Some 200))]
      = Inl TypeError"
    using select_shuffle_unparseable [OF cfg(1) sort _ unparseable] by simp
  with no_match links show ?thesis
    by (simp add: selectWallpaperLink_def urlFilePath_no_match parseType_no_match)
qed

text \<open>
  C4. The claim: for a fixed score, \<open>heat\<close> is strictly increasing in the timestamp.
  \<^verbatim>\<open>Math.round\<close> ignores its second argument \<open>7\<close> and rounds to an integer, so two
  links one second apart (and any two less than 45000 seconds apart that fall in the same
  rounding interval) have the same \<open>heat\<close>.
\<close>

theorem heat_one_second_apart:
  "heat \<lparr>score = Some 10, createdUtc = 1500000000, ups = 10, downs = 0\<rparr> = Fin 8134
   \<and> heat \<lparr>score = Some 10, createdUtc = 1500000001, ups = 10, downs = 0\<rparr> = Fin 8134
   \<and> \<not> js_lt (heat \<lparr>score = Some 10, createdUtc = 1500000000, ups = 10, downs = 0\<rparr>)
              (heat \<lparr>score = Some 10, createdUtc = 1500000001, ups = 10, downs = 0\<rparr>)"
  by (simp add: heat_def int_num_def js_gt_def js_sub_def)

text \<open>
  C5, as the code has it. \<open>defaultLink\<close> is the seed of the fold: for each of the four
  sort modes the fold of the empty sequence returns it, and the fold of one candidate
  \<open>c\<close> returns \<open>c\<close> unless the seed's key is strictly greater. For \<open>top\<close> that is
  exactly when the score of \<open>c\<close> is present and negative, for \<open>new\<close> exactly when its
  timestamp is negative; for \<open>controversial\<close> \<open>c\<close> is always returned; for \<open>hot\<close>
  \<open>c\<close> is returned whenever its timestamp is not negative.
\<close>

theorem seed_against_one_link:
  "(\<exists>f. selectLink (str ''top'') = Inr f \<and> reduce f [] = DefaultLink
      \<and> reduce f [c] = (if js_lt (num (score c)) (Fin 0) then DefaultLink else Link c))
   \<and> (\<exists>f. selectLink (str ''new'') = Inr f \<and> reduce f [] = DefaultLink
      \<and> reduce f [c] = (if createdUtc c < 0 then DefaultLink else Link c))
   \<and> (\<exists>f. selectLink (str ''controversial'') = Inr f \<and> reduce f [] = DefaultLink
      \<and> reduce f [c] = Link c)
   \<and> (\<exists>f. selectLink (str ''hot'') = Inr f \<and> reduce f [] = DefaultLink
      \<and> (0 \<le> createdUtc c \<longrightarrow> reduce f [c] = Link c))"
proof -
  have "controversy defaultLink = NaN"
    by (simp add: controversy_NaN_iff defaultLink_def)
  then have "reduce (keep_greater c_controversy) [c] = Link c"
    by (simp add: reduce_def keep_greater_def js_gt_def js_lt_NaN_right)
  moreover have "0 \<le> createdUtc c \<longrightarrow> reduce (keep_greater c_heat) [c] = Link c"
    using heat_seed_not_greater [of c] by (simp add: reduce_def keep_greater_def)
  moreover have "reduce (keep_greater c_score) [c]
      = (if js_lt (num (score c)) (Fin 0) then DefaultLink else Link c)"
    by (simp add: reduce_def keep_greater_def js_gt_def defaultLink_def int_num_def)
  moreover have "reduce (keep_greater c_createdUtc) [c]
      = (if createdUtc c < 0 then DefaultLink else Link c)"
    by (simp add: reduce_def keep_greater_def js_gt_def defaultLink_def int_num_def)
  ultimately show ?thesis
    by (simp add: selectLink_top selectLink_hot selectLink_new selectLink_controversial
        reduce_def)
qed

text \<open>The theorem on a link created in 2017, sort mode \<open>hot\<close>.\<close>

theorem seed_against_one_link_witness:
  "\<exists>f. selectLink (str ''hot'') = Inr f
     \<and> reduce f [sample_link (Some 200) 1500000000 5 1 (str ''http://i.imgur.com/a.jpg'')]
       = Link (sample_link (Some 200) 1500000000 5 1 (str ''http://i.imgur.com/a.jpg''))"
proof -
  have "0 \<le> createdUtc (sample_link (Some 200) 1500000000 5 1 (str ''http://i.imgur.com/a.jpg''))"
    by (simp add: sample_link_def)
  with seed_against_one_link
    [of "sample_link (Some 200) 1500000000 5 1 (str ''http://i.imgur.com/a.jpg'')"]
  show ?thesis by blast
qed

text \<open>One link with score \<open>-1\<close>, sort mode \<open>top\<close>, shuffle off: the selection returns
  the seed although the sequence is not empty.\<close>

theorem seed_beats_negative_score:
  "select simple_join no_files (sample_config (str ''top'') False)
     [sample_link (Some (- 1)) 1500000000 0 1 (str ''http://i.imgur.com/a.jpg'')]
   = Inr DefaultLink"
  by (simp add: select_def sample_config_def defaults_def selectLink_top p_then_def reduce_def
      keep_greater_def js_gt_def int_num_def sample_link_def defaultLink_def)

text \<open>
  C6. With shuffle on and one of the four sort modes, if for every filtered link the
  target path is computed and the probe answers that the file exists, then no link is
  retained and the selection returns \<open>defaultLink\<close>, whatever the sequence of links.
\<close>

theorem shuffle_all_downloaded:
  assumes "opt_shuffle options"
      and "opt_sort options \<in> {str ''top'', str ''hot'', str ''controversial'', str ''new''}"
      and "\<forall>l\<in>set links. \<exists>p. urlFilePath path_join (url l) (opt_directory options) = Inr p
             \<and> fileExists fs p = Inr True"
  shows "select path_join fs options links = Inr DefaultLink"
proof -
  have "\<forall>l\<in>set links. not_downloaded path_join fs options l = Inr False"
    using assms(3) by (auto simp: not_downloaded_def p_then_def)
  then have "promise_filter (not_downloaded path_join fs options) links = Inr []"
    by (rule promise_filter_none_kept)
  moreover obtain f where "selectLink (opt_sort options) = Inr f"
    using selectLink_known [OF assms(2)] by blast
  ultimately show ?thesis
    using assms(1) by (simp add: select_def p_then_def reduce_def)
qed

text \<open>The theorem on the default configuration, one link and a file system where every
  path is a regular file.\<close>

theorem shuffle_all_downloaded_witness:
  "fileExists all_files (Some (simple_join (str ''/home/me/.reddit-wallpaper'') (str ''a.jpg'')))
     = Inr True
   \<and> select simple_join all_files (sample_config (str ''top'') True)
       [sample_link (Some 200) 1500000000 5 1 (str ''http://i.imgur.com/a.jpg'')]
     = Inr DefaultLink"
proof -
  have dir: "opt_directory (sample_config (str ''top'') True) = str ''/home/me/.reddit-wallpaper''"
    by (simp add: sample_config_def defaults_def)
  have path: "urlFilePath simple_join (str ''http://i.imgur.com/a.jpg'')
        (str ''/home/me/.reddit-wallpaper'')
      = Inr (Some (simple_join (str ''/home/me/.reddit-wallpaper'') (str ''a.jpg'')))"
    by (simp add: urlFilePath_def matchFile_sample) (simp add: str_def)
  have probe: "fileExists all_files
        (Some (simple_join (str ''/home/me/.reddit-wallpaper'') (str ''a.jpg''))) = Inr True"
    by (simp add: fileExists_def all_files_def p_then_def p_catch_def simple_join_def)
  have shuffle: "opt_shuffle (sample_config (str ''top'') True)"
    by (simp add: sample_config_def)
  have sort: "opt_sort (sample_config (str ''top'') True)
      \<in> {str ''top'', str ''hot'', str ''controversial'', str ''new''}"
    by (simp add: sample_config_def)
  have probes: "\<forall>l\<in>set [sample_link (Some 200) 1500000000 5 1 (str ''http://i.imgur.com/a.jpg'')].
      \<exists>p. urlFilePath simple_join (url l) (opt_directory (sample_config (str ''top'') True)) = Inr p
        \<and> fileExists all_files p = Inr True"
    using path probe by (simp add: dir sample_link_def)
  have "select simple_join all_files (sample_config (str ''top'') True)
       [sample_link (Some 200) 1500000000 5 1 (str ''http://i.imgur.com/a.jpg'')]
     = Inr DefaultLink"
    using shuffle_all_downloaded [OF shuffle sort probes] .
  with probe show ?thesis by simp
qed

text \<open>
  C7. A link passes the score clause of the filter if and only if its score is falsy
  (absent or zero) or at least the configured threshold. So a link with score \<open>0\<close>
  passes for every threshold, a link with score \<open>50\<close> fails for threshold \<open>100\<close>, and
  a link that passes the filter passes this clause.
\<close>

theorem score_clause_falsy_or_threshold:
  "(score_clause options l \<longleftrightarrow>
      score l = None \<or> score l = Some 0 \<or> (\<exists>s. score l = Some s \<and> opt_score options \<le> s))
   \<and> (score l = Some 0 \<longrightarrow> score_clause options l)
   \<and> (score l = Some 50 \<and> opt_score options = 100 \<longrightarrow> \<not> score_clause options l)
   \<and> (passes unicode_lower options l \<longrightarrow> score_clause options l)"
  by (cases "score l") (auto simp: score_clause_def passes_def js_ge_def int_num_def)

text \<open>The theorem on the default threshold \<open>100\<close> and scores \<open>0\<close>, \<open>50\<close> and
  \<open>100\<close>.\<close>

theorem score_clause_falsy_or_threshold_witness:
  "score_clause (sample_config (str ''top'') False)
     (sample_link (Some 0) 1500000000 5 1 (str ''http://i.imgur.com/a.jpg''))
   \<and> \<not> score_clause (sample_config (str ''top'') False)
     (sample_link (Some 50) 1500000000 5 1 (str ''http://i.imgur.com/a.jpg''))
   \<and> score_clause (sample_config (str ''top'') False)
     (sample_link (Some 100) 1500000000 5 1 (str ''http://i.imgur.com/a.jpg''))"
  using score_clause_falsy_or_threshold
      [of "sample_config (str ''top'') False"
          "sample_link (Some 0) 1500000000 5 1 (str ''http://i.imgur.com/a.jpg'')"]
    score_clause_falsy_or_threshold
      [of "sample_config (str ''top'') False"
          "sample_link (Some 50) 1500000000 5 1 (str ''http://i.imgur.com/a.jpg'')"]
    score_clause_falsy_or_threshold
      [of "sample_config (str ''top'') False"
          "sample_link (Some 100) 1500000000 5 1 (str ''http://i.imgur.com/a.jpg'')"]
  by (simp add: sample_config_def defaults_def sample_link_def)

text \<open>
  C8. The probe never rejects: for every path it resolves to a boolean. When
  \<^verbatim>\<open>stat\<close> fails on a path the probe resolves to false, and it resolves to true exactly
  when the path is a non-empty string on which \<^verbatim>\<open>stat\<close> succeeds and reports a regular
  file.
\<close>

theorem fileExists_absorbs_failure:
  "(\<exists>b. fileExists fs p = Inr b)
   \<and> (fs path = Inl e \<longrightarrow> fileExists fs (Some path) = Inr False)
   \<and> (fileExists fs p = Inr True \<longleftrightarrow>
        (\<exists>path' st. p = Some path' \<and> path' \<noteq> [] \<and> fs path' = Inr st \<and> isFile st))"
  by (auto simp: fileExists_def p_catch_def p_then_def split: option.splits sum.splits)

text \<open>The theorem on a file system where \<^verbatim>\<open>stat\<close> fails on every path.\<close>

theorem fileExists_absorbs_failure_witness:
  "no_files (str ''/home/me/.reddit-wallpaper/a.jpg'') = Inl (FsError 2)
   \<and> fileExists no_files (Some (str ''/home/me/.reddit-wallpaper/a.jpg'')) = Inr False"
  using fileExists_absorbs_failure
    [of no_files "Some (str ''/home/me/.reddit-wallpaper/a.jpg'')"
        "str ''/home/me/.reddit-wallpaper/a.jpg''" "FsError 2"]
  by (simp add: no_files_def)

text \<open>
  C9, as the code has it. When \<open>parseResolution\<close> returns a result, its width and its
  height are never NaN and never negative: each is a natural number (zero when the group
  of digits is all zeros, which \<^verbatim>\<open>\d+\<close> allows; the nearest double when the group is
  longer than a double holds exactly) or \<open>Infinity\<close> when the group is out of the range
  of a double.
\<close>

theorem parseResolution_nonnegative:
  assumes "parseResolution t = Some r"
  shows "(width r = PInf \<or> (\<exists>n::nat. width r = Fin (real n)))
       \<and> (height r = PInf \<or> (\<exists>n::nat. height r = Fin (real n)))"
proof -
  from parseResolution_SomeD [OF assms]
  obtain m where m: "search resolution_at t = Some m"
      and r: "r = \<lparr>width = parseInt (m ! 1), height = parseInt (m ! 2)\<rparr>"
    by blast
  from search_SomeD [OF m] obtain s where s: "resolution_at s = Some m"
    by blast
  have "width r = to_double (radix_value 10 (m ! 1))"
    and "height r = to_double (radix_value 10 (m ! 2))"
    using resolution_groups_parse [OF s] by (simp_all only: r resolution.simps)
  then show ?thesis
    using to_double_cases [of "radix_value 10 (m ! 1)"] to_double_cases [of "radix_value 10 (m ! 2)"]
    by (simp only:)
qed

text \<open>The theorem on a title that declares 1920 by 1080.\<close>

theorem parseResolution_nonnegative_witness:
  "parseResolution (str ''Castle [1920x1080]'') = Some \<lparr>width = Fin 1920, height = Fin 1080\<rparr>
   \<and> (width \<lparr>width = Fin 1920, height = Fin 1080\<rparr> = PInf
      \<or> (\<exists>n::nat. width \<lparr>width = Fin 1920, height = Fin 1080\<rparr> = Fin (real n)))
   \<and> (height \<lparr>width = Fin 1920, height = Fin 1080\<rparr> = PInf
      \<or> (\<exists>n::nat. height \<lparr>width = Fin 1920, height = Fin 1080\<rparr> = Fin (real n)))"
  by (rule conjI [OF parseResolution_sample parseResolution_nonnegative [OF parseResolution_sample]])

text \<open>The title \<open>[0x0]\<close> has a result, whose width and height are zero.\<close>

theorem parseResolution_zero:
  "parseResolution (str ''[0x0]'') = Some \<lparr>width = Fin 0, height = Fin 0\<rparr>"
proof -
  have "search resolution_at (str ''[0x0]'') = Some [str ''[0x0]'', str ''0'', str ''0'']"
    by (simp add: str_def resolution_at_def is_space_def is_digit_def is_sep_def Let_def)
  then show ?thesis
    by (simp add: parseResolution_def parseInt_small)
qed

text \<open>
  C10. \<open>assignConfig\<close> leaves \<open>types\<close> as supplied (it lower-cases \<open>domains\<close> and a
  \<open>files\<close> property, which the filter never reads); the type clause of the filter tests
  whether the link's type is a member of \<open>types\<close> as they stand; and the type of a
  normalised link is lower-cased, so an entry of \<open>types\<close> with an upper-case letter is
  the type of no link, and a configuration whose only entry is such a one rejects every
  link.
\<close>

theorem types_compared_as_supplied:
  "opt_types (assignConfig expandTilde unicode_lower dflt given) = assign (opt_types dflt) (ov_types given)
   \<and> opt_files (assignConfig expandTilde unicode_lower dflt given)
       = map_option (map (toLowerCase unicode_lower)) (assign (opt_files dflt) (ov_files given))
   \<and> passes unicode_lower (options\<lparr>opt_files := fl\<rparr>) l = passes unicode_lower options l
   \<and> (type_clause options l \<longleftrightarrow>
        (case opt_types options of None \<Rightarrow> True | Some ts \<Rightarrow> ts = [] \<or> ltype l \<in> set ts))
   \<and> ((\<exists>c\<in>set e. is_upper c) \<longrightarrow>
        ltype (toLink unicode_lower d) \<noteq> e
        \<and> (opt_types options = Some [e] \<longrightarrow> \<not> type_clause options (toLink unicode_lower d)))"
proof -
  have "opt_types (assignConfig expandTilde unicode_lower dflt given) = assign (opt_types dflt) (ov_types given)"
    by (simp add: assignConfig_def Let_def)
  moreover have "opt_files (assignConfig expandTilde unicode_lower dflt given)
       = map_option (map (toLowerCase unicode_lower)) (assign (opt_files dflt) (ov_files given))"
    by (simp add: assignConfig_def Let_def)
  moreover have "passes unicode_lower (options\<lparr>opt_files := fl\<rparr>) l = passes unicode_lower options l"
    by (simp add: passes_def score_clause_def domain_clause_def type_clause_def
        resolution_clause_def)
  moreover have "(\<exists>c\<in>set e. is_upper c) \<longrightarrow> ltype (toLink unicode_lower d) \<noteq> e"
    using ltype_toLink_no_upper by blast
  ultimately show ?thesis
    by (simp add: type_clause_member)
qed

text \<open>The theorem on the entry \<open>PNG\<close> and a link to \<open>a.PNG\<close>, whose type is
  \<open>png\<close>.\<close>

theorem types_compared_as_supplied_witness:
  "ltype (toLink plain_lower (sample_raw (str ''http://i.imgur.com/a.PNG'') (str ''Castle'') (Some 200)))
     = str ''png''
   \<and> \<not> type_clause ((sample_config (str ''top'') False)\<lparr>opt_types := Some [str ''PNG'']\<rparr>)
       (toLink plain_lower (sample_raw (str ''http://i.imgur.com/a.PNG'') (str ''Castle'') (Some 200)))"
proof -
  have upper: "\<exists>c\<in>set (str ''PNG''). is_upper c"
    by (simp add: str_def is_upper_def)
  have types: "opt_types ((sample_config (str ''top'') False)\<lparr>opt_types := Some [str ''PNG'']\<rparr>)
      = Some [str ''PNG'']"
    by simp
  have "matchFile (str ''http://i.imgur.com/a.PNG'')
      = Some [str ''a.PNG'', str ''a'', str ''PNG'', []]"
    by (simp add: matchFile_def str_def file_at_def is_name_def is_word_def is_upper_def
        is_lower_def is_digit_def is_space_def Let_def)
  then have "ltype (toLink plain_lower (sample_raw (str ''http://i.imgur.com/a.PNG'') (str ''Castle'') (Some 200)))
     = str ''png''"
    by (simp add: toLink_def sample_raw_def parseType_def)
      (simp add: str_def toLowerCase_def lower_unit_def is_upper_def)
  with types_compared_as_supplied
    [where options = "(sample_config (str ''top'') False)\<lparr>opt_types := Some [str ''PNG'']\<rparr>"
       and e = "str ''PNG''"
       and unicode_lower = plain_lower
       and d = "sample_raw (str ''http://i.imgur.com/a.PNG'') (str ''Castle'') (Some 200)"]
    upper types
  show ?thesis by blast
qed

end
